theory Spec2Isabelle
  imports Main "HOL-Library.Word"
begin

section \<open>Values, errors and outcomes\<close>

text \<open>
  The data-access layer of \<^verbatim>\<open>mongodb.go\<close> talks to a MongoDB server through the Go
  driver. The model keeps the layer's own control flow (session creation, deferred calls,
  error checks, the filters and pipelines it builds) and treats the server as a record of
  answers, one per driver call. Every driver call the layer makes is written to a trace,
  so that "before any store access", "released exactly once" and "the executed pipeline"
  are statements about that trace.
\<close>

type_synonym ObjectID = "8 word list"

text \<open>\<^verbatim>\<open>primitive.NilObjectID\<close>: the zero value of \<^verbatim>\<open>[12]byte\<close>.\<close>

definition NilObjectID :: ObjectID where
  "NilObjectID = replicate 12 0"

datatype error =
    ErrInvalidHex
  | ErrLength
  | InvalidByteError char
  | ErrSyntax
  | ErrRange
  | ErrorsNew string
  | StoreError string

datatype panic = PanicError error | NilPointerDereference

datatype 'a outcome = Return 'a | Panic panic

datatype reflect_Type = NamedType string | SliceOf reflect_Type

text \<open>
  Go values that cross the interface: \<^verbatim>\<open>bson.M\<close> (a map, written as the association
  list of its literal), \<^verbatim>\<open>bson.D\<close> (an ordered document), a slice, the scalars the
  layer builds, a value freshly allocated by \<^verbatim>\<open>reflect.New\<close>, and any other value
  of the caller or of the driver, which the layer never inspects.
\<close>

datatype go_value =
    VNil
  | VString string
  | VInt int
  | VObjectID ObjectID
  | VM "(string \<times> go_value) list"
  | VD "(string \<times> go_value) list"
  | VSlice "go_value list"
  | VNew reflect_Type
  | VOpaque string

record FindOptions =
  Limit :: "int option"
  Sort :: "go_value option"

datatype event =
    SessionStarted
  | TransactionStarted
  | EndSession
  | Printf string go_value
  | Println string error
  | EvFind string string go_value FindOptions
  | EvCursorAll nat reflect_Type
  | EvCursorClose nat
  | EvFindOne string string go_value
  | EvDecode go_value reflect_Type
  | EvInsertOne string string go_value
  | EvUpdateOne string string go_value go_value
  | EvDeleteOne string string go_value
  | EvAggregate string string go_value

text \<open>
  The answers of the server and of the driver's decoders. A cursor is a number; a failed
  \<^verbatim>\<open>Find\<close> or \<^verbatim>\<open>Aggregate\<close> gives the error and, as the driver does, a nil cursor.
  \<^verbatim>\<open>Decode\<close> and \<^verbatim>\<open>All\<close> write into the target the caller allocated and return
  the error separately, so both come back.
\<close>

record Store =
  StartSession :: "error option"
  StartTransaction :: "error option"
  Find :: "string \<Rightarrow> string \<Rightarrow> go_value \<Rightarrow> FindOptions \<Rightarrow> error + nat"
  Cursor_All :: "nat \<Rightarrow> reflect_Type \<Rightarrow> go_value \<times> error option"
  FindOne :: "string \<Rightarrow> string \<Rightarrow> go_value \<Rightarrow> error + go_value"
  Decode :: "go_value \<Rightarrow> reflect_Type \<Rightarrow> go_value \<times> error option"
  InsertOne :: "string \<Rightarrow> string \<Rightarrow> go_value \<Rightarrow> error + go_value"
  UpdateOne :: "string \<Rightarrow> string \<Rightarrow> go_value \<Rightarrow> go_value \<Rightarrow> error + go_value"
  DeleteOne :: "string \<Rightarrow> string \<Rightarrow> go_value \<Rightarrow> error + go_value"
  Aggregate :: "string \<Rightarrow> string \<Rightarrow> go_value \<Rightarrow> error + nat"

section \<open>Library functions the layer calls\<close>

subsection \<open>primitive.ObjectIDFromHex\<close>

text \<open>\<^verbatim>\<open>encoding/hex\<close>: one hexadecimal digit, either case.\<close>

definition fromHexChar :: "char \<Rightarrow> nat option" where
  "fromHexChar c =
     (let n = (of_char c :: nat) in
      if 48 \<le> n \<and> n \<le> 57 then Some (n - 48)
      else if 97 \<le> n \<and> n \<le> 102 then Some (n - 97 + 10)
      else if 65 \<le> n \<and> n \<le> 70 then Some (n - 65 + 10)
      else None)"

text \<open>
  \<^verbatim>\<open>hex.DecodeString\<close>: the digits are read in pairs, and the first byte that is no
  digit is reported. A single digit left over at the end gives \<^verbatim>\<open>ErrLength\<close>, after
  the check that it is a digit.
\<close>

fun hex_DecodeString :: "string \<Rightarrow> error + 8 word list" where
  "hex_DecodeString [] = Inr []"
| "hex_DecodeString [c] =
     (case fromHexChar c of
        None \<Rightarrow> Inl (InvalidByteError c)
      | Some x \<Rightarrow> Inl ErrLength)"
| "hex_DecodeString (a # b # rest) =
     (case fromHexChar a of
        None \<Rightarrow> Inl (InvalidByteError a)
      | Some x \<Rightarrow>
          (case fromHexChar b of
             None \<Rightarrow> Inl (InvalidByteError b)
           | Some y \<Rightarrow>
               (case hex_DecodeString rest of
                  Inl err \<Rightarrow> Inl err
                | Inr bs \<Rightarrow> Inr (of_nat (x * 16 + y) # bs))))"

text \<open>
  The driver's \<^verbatim>\<open>ObjectIDFromHex\<close>: twelve bytes written as 24 hexadecimal digits.
  On failure it returns \<^verbatim>\<open>NilObjectID\<close> together with the error.
\<close>

definition ObjectIDFromHex :: "string \<Rightarrow> ObjectID \<times> error option" where
  "ObjectIDFromHex s =
     (case hex_DecodeString s of
        Inl err \<Rightarrow> (NilObjectID, Some err)
      | Inr b \<Rightarrow>
          if length b \<noteq> 12 then (NilObjectID, Some ErrInvalidHex)
          else (b, None))"

subsection \<open>strconv.ParseInt(s, 10, 64)\<close>

text \<open>A \<^verbatim>\<open>uint64\<close> is held as an integer; the loop below tests every overflow itself.\<close>

definition maxUint64 :: int where
  "maxUint64 = 2 ^ 64 - 1"

text \<open>
  The digit loop of \<^verbatim>\<open>strconv.ParseUint\<close> in base 10 at 64 bits. It stops at the
  first character that is no decimal digit (syntax error, value 0) and at the first
  overflow (range error, value \<^verbatim>\<open>maxUint64\<close>), whichever comes first.
\<close>

fun ParseUint_loop :: "string \<Rightarrow> int \<Rightarrow> int \<times> error option" where
  "ParseUint_loop [] n = (n, None)"
| "ParseUint_loop (c # cs) n =
     (let k = (of_char c :: int) in
      if 48 \<le> k \<and> k \<le> 57 then
        (if n \<ge> maxUint64 div 10 + 1 then (maxUint64, Some ErrRange)
         else
           (let n1 = n * 10 + (k - 48) in
            if n1 > maxUint64 then (maxUint64, Some ErrRange)
            else ParseUint_loop cs n1))
      else (0, Some ErrSyntax))"

definition ParseUint :: "string \<Rightarrow> int \<times> error option" where
  "ParseUint s = (if s = [] then (0, Some ErrSyntax) else ParseUint_loop s 0)"

text \<open>
  \<^verbatim>\<open>strconv.ParseInt\<close>: an optional sign, then \<^verbatim>\<open>ParseUint\<close>. A syntax error
  gives 0; a value outside \<^verbatim>\<open>int64\<close> gives the nearest bound and a range error.
\<close>

definition ParseInt :: "string \<Rightarrow> int \<times> error option" where
  "ParseInt s0 =
     (if s0 = [] then (0, Some ErrSyntax)
      else
        (let neg = (hd s0 = CHR ''-'');
             s = (if hd s0 = CHR ''+'' \<or> hd s0 = CHR ''-'' then tl s0 else s0);
             (un, err) = ParseUint s;
             cutoff = (2 :: int) ^ 63
         in if err \<noteq> None \<and> err \<noteq> Some ErrRange then (0, err)
            else if \<not> neg \<and> un \<ge> cutoff then (cutoff - 1, Some ErrRange)
            else if neg \<and> un > cutoff then (- cutoff, Some ErrRange)
            else (if neg then - un else un, None)))"

section \<open>Sequencing, deferred calls and the driver's calls\<close>

type_synonym 'a run = "event list \<times> 'a outcome"

text \<open>Run \<open>r\<close>, then \<open>f\<close> on its value; a panic skips \<open>f\<close>.\<close>

definition bind_run :: "'a run \<Rightarrow> ('a \<Rightarrow> 'b run) \<Rightarrow> 'b run" where
  "bind_run r f =
     (case r of
        (t, Panic p) \<Rightarrow> (t, Panic p)
      | (t, Return x) \<Rightarrow> (case f x of (t', out) \<Rightarrow> (t @ t', out)))"

text \<open>
  Go's \<^verbatim>\<open>defer\<close>: the deferred call \<open>d\<close> runs when the body \<open>r\<close> is left, by return
  or by panic. A panic of the deferred call replaces the body's outcome; otherwise the
  body's outcome stands.
\<close>

definition defer_call :: "unit run \<Rightarrow> 'a run \<Rightarrow> 'a run" where
  "defer_call d r =
     (case r of (t, out) \<Rightarrow>
        (case d of
           (td, Panic p) \<Rightarrow> (t @ td, Panic p)
         | (td, Return u) \<Rightarrow> (t @ td, out)))"

text \<open>\<^verbatim>\<open>session.EndSession(ctx)\<close> returns nothing and does not fail.\<close>

definition session_EndSession :: "unit run" where
  "session_EndSession = ([EndSession], Return ())"

text \<open>
  \<^verbatim>\<open>(*Cursor).Close\<close> reads the cursor's fields at once, with no nil check: on the nil
  cursor it panics with a nil pointer dereference. Its error result is dropped by the
  \<^verbatim>\<open>defer\<close> statement.
\<close>

definition cur_Close :: "nat option \<Rightarrow> unit run" where
  "cur_Close cur =
     (case cur of
        None \<Rightarrow> ([], Panic NilPointerDereference)
      | Some c \<Rightarrow> ([EvCursorClose c], Return ()))"

text \<open>\<^verbatim>\<open>mongo.WithSession(ctx, sess, fn)\<close> calls \<open>fn\<close> and returns what it returns.\<close>

definition WithSession :: "(unit \<Rightarrow> 'a run) \<Rightarrow> 'a run" where
  "WithSession fn = fn ()"

section \<open>The layer\<close>

subsection \<open>createSession\<close>

definition createSession :: "Store \<Rightarrow> unit run" where
  "createSession m =
     (case StartSession m of
        Some err \<Rightarrow>
          ([Println ''Error when try to start session: '' err], Panic (PanicError err))
      | None \<Rightarrow>
          (case StartTransaction m of
             Some err \<Rightarrow>
               ([SessionStarted, Println ''Error when try to start transaction: '' err],
                Panic (PanicError err))
           | None \<Rightarrow> ([SessionStarted, TransactionStarted], Return ())))"

subsection \<open>GetALL\<close>

text \<open>
  The closure passed to \<^verbatim>\<open>WithSession\<close>. It returns the closure's error together with
  the value it leaves in the captured variable \<^verbatim>\<open>results\<close>.
\<close>

definition GetALL_filter :: "string \<Rightarrow> go_value \<times> event list" where
  "GetALL_filter lastID =
     (if lastID \<noteq> [] then
        (case ObjectIDFromHex lastID of
           (oid, err) \<Rightarrow>
             (VM [(''_id'', VM [(''$gt'', VObjectID oid)])],
              if err \<noteq> None then [Printf ''%d can not convert to ObjectID'' (VObjectID oid)]
              else []))
      else (VM [], []))"

definition GetALL_findOptions :: "string \<Rightarrow> FindOptions \<times> event list" where
  "GetALL_findOptions pageSize =
     (case ParseInt pageSize of
        (limit, err) \<Rightarrow>
          (\<lparr>Limit = Some limit, Sort = Some (VD [(''_id'', VInt 1)])\<rparr>,
           if err \<noteq> None then [Printf ''%d can not convert to int64'' (VInt limit)]
           else []))"

definition GetALL_closure ::
  "Store \<Rightarrow> string \<Rightarrow> string \<Rightarrow> string \<Rightarrow> string \<Rightarrow> reflect_Type \<Rightarrow> unit \<Rightarrow>
   (go_value \<times> error option) run" where
  "GetALL_closure m databaseName collectionName lastID pageSize dataModel sc =
     (case GetALL_filter lastID of
        (fltr, t1) \<Rightarrow>
          (case GetALL_findOptions pageSize of
             (findOptions, t2) \<Rightarrow>
               (let t = t1 @ t2 @ [EvFind databaseName collectionName fltr findOptions] in
                case Find m databaseName collectionName fltr findOptions of
                  Inl err \<Rightarrow> defer_call (cur_Close None) (t, Return (VNil, Some err))
                | Inr cur \<Rightarrow>
                    defer_call (cur_Close (Some cur))
                      (case Cursor_All m cur (SliceOf dataModel) of
                         (results, err) \<Rightarrow>
                           (t @ [EvCursorAll cur (SliceOf dataModel)],
                            Return (results, err))))))"

text \<open>
  What every operation does with the result of \<^verbatim>\<open>WithSession\<close>: an error is logged
  and returned with a nil result, otherwise the captured result is returned.
\<close>

definition after_WithSession ::
  "string \<Rightarrow> (go_value \<times> error option) \<Rightarrow> (go_value \<times> error option) run" where
  "after_WithSession msg r =
     (case r of
        (res, Some err) \<Rightarrow> ([Println msg err], Return (VNil, Some err))
      | (res, None) \<Rightarrow> ([], Return (res, None)))"

definition GetALL ::
  "Store \<Rightarrow> string \<Rightarrow> string \<Rightarrow> string \<Rightarrow> string \<Rightarrow> reflect_Type \<Rightarrow>
   (go_value \<times> error option) run" where
  "GetALL m databaseName collectionName lastID pageSize dataModel =
     bind_run (createSession m) (\<lambda>session.
       defer_call session_EndSession
         (if databaseName = [] \<and> collectionName = [] \<and> lastID = [] \<and> pageSize = [] then
            ([], Return (VNil,
               Some (ErrorsNew ''databaseName, collectionName, lastID and pageSize must not empty'')))
          else
            bind_run
              (WithSession (GetALL_closure m databaseName collectionName lastID pageSize dataModel))
              (after_WithSession ''Error when try to use with session at GetALL method: '')))"

subsection \<open>GetByField\<close>

definition GetByField_filter :: "string \<Rightarrow> string \<Rightarrow> go_value \<times> event list" where
  "GetByField_filter field val =
     (if field = ''_id'' then
        (case ObjectIDFromHex val of
           (oid, err) \<Rightarrow>
             (VM [(field, VObjectID oid)],
              if err \<noteq> None then [Printf ''%d can not convert to ObjectID'' (VObjectID oid)]
              else []))
      else (VM [(field, VString val)], []))"

text \<open>
  After \<^verbatim>\<open>err = SR.Decode(result)\<close> the closure reads
  \<^verbatim>\<open>if err == nil { return err }; return nil\<close>: both branches are kept as written.
\<close>

definition GetByField_closure ::
  "Store \<Rightarrow> string \<Rightarrow> string \<Rightarrow> string \<Rightarrow> string \<Rightarrow> reflect_Type \<Rightarrow> unit \<Rightarrow>
   (go_value \<times> error option) run" where
  "GetByField_closure m databaseName collectionName field val dataModel sc =
     (case GetByField_filter field val of
        (fltr, t1) \<Rightarrow>
          (let t = t1 @ [EvFindOne databaseName collectionName fltr] in
           case FindOne m databaseName collectionName fltr of
             Inl err \<Rightarrow> (t, Return (VNil, Some err))
           | Inr doc \<Rightarrow>
               (case Decode m doc dataModel of
                  (result, err) \<Rightarrow>
                    (t @ [EvDecode doc dataModel],
                     if err = None then Return (result, err)
                     else Return (result, None)))))"

definition GetByField ::
  "Store \<Rightarrow> string \<Rightarrow> string \<Rightarrow> string \<Rightarrow> string \<Rightarrow> reflect_Type \<Rightarrow>
   (go_value \<times> error option) run" where
  "GetByField m databaseName collectionName field val dataModel =
     bind_run (createSession m) (\<lambda>session.
       defer_call session_EndSession
         (bind_run
            (WithSession (GetByField_closure m databaseName collectionName field val dataModel))
            (after_WithSession ''Error when try to use with session at GetByField method: '')))"

subsection \<open>Create\<close>

definition Create_closure ::
  "Store \<Rightarrow> string \<Rightarrow> string \<Rightarrow> go_value \<Rightarrow> unit \<Rightarrow> (go_value \<times> error option) run" where
  "Create_closure m databaseName collectionName dataModel sc =
     (let t = [EvInsertOne databaseName collectionName dataModel] in
      case InsertOne m databaseName collectionName dataModel of
        Inl err \<Rightarrow> (t, Return (VNil, Some err))
      | Inr result \<Rightarrow> (t, Return (result, None)))"

definition Create ::
  "Store \<Rightarrow> string \<Rightarrow> string \<Rightarrow> go_value \<Rightarrow> (go_value \<times> error option) run" where
  "Create m databaseName collectionName dataModel =
     bind_run (createSession m) (\<lambda>session.
       defer_call session_EndSession
         (bind_run
            (WithSession (Create_closure m databaseName collectionName dataModel))
            (after_WithSession ''Error when try to use with session at Create method: '')))"

subsection \<open>Update and Delete\<close>

text \<open>The message of the error both operations build when \<^verbatim>\<open>ID.(primitive.ObjectID)\<close> fails.\<close>

definition cant_convert :: error where
  "cant_convert =
     ErrorsNew (''can'' @ [CHR 0x27] @
       ''t convert userID type interface to primitive.ObjectID at DeleteUser function'')"

definition Update_closure ::
  "Store \<Rightarrow> string \<Rightarrow> string \<Rightarrow> go_value \<Rightarrow> go_value \<Rightarrow> unit \<Rightarrow>
   (go_value \<times> error option) run" where
  "Update_closure m databaseName collectionName ID dataModel sc =
     (case ID of
        VObjectID oid \<Rightarrow>
          (let fltr = VM [(''_id'', VObjectID oid)];
               update = VM [(''$set'', dataModel)];
               t = [EvUpdateOne databaseName collectionName fltr update]
           in case UpdateOne m databaseName collectionName fltr update of
                Inl err \<Rightarrow> (t, Return (VNil, Some err))
              | Inr result \<Rightarrow> (t, Return (result, None)))
      | _ \<Rightarrow> ([], Return (VNil, Some cant_convert)))"

definition Update ::
  "Store \<Rightarrow> string \<Rightarrow> string \<Rightarrow> go_value \<Rightarrow> go_value \<Rightarrow> (go_value \<times> error option) run" where
  "Update m databaseName collectionName ID dataModel =
     bind_run (createSession m) (\<lambda>session.
       defer_call session_EndSession
         (bind_run
            (WithSession (Update_closure m databaseName collectionName ID dataModel))
            (after_WithSession ''Error when try to use with session at Update method: '')))"

definition Delete_closure ::
  "Store \<Rightarrow> string \<Rightarrow> string \<Rightarrow> go_value \<Rightarrow> unit \<Rightarrow> (go_value \<times> error option) run" where
  "Delete_closure m databaseName collectionName ID sc =
     (case ID of
        VObjectID oid \<Rightarrow>
          (let fltr = VM [(''_id'', VObjectID oid)];
               t = [EvDeleteOne databaseName collectionName fltr]
           in case DeleteOne m databaseName collectionName fltr of
                Inl err \<Rightarrow> (t, Return (VNil, Some err))
              | Inr result \<Rightarrow> (t, Return (result, None)))
      | _ \<Rightarrow> ([], Return (VNil, Some cant_convert)))"

definition Delete ::
  "Store \<Rightarrow> string \<Rightarrow> string \<Rightarrow> go_value \<Rightarrow> (go_value \<times> error option) run" where
  "Delete m databaseName collectionName ID =
     bind_run (createSession m) (\<lambda>session.
       defer_call session_EndSession
         (bind_run
            (WithSession (Delete_closure m databaseName collectionName ID))
            (after_WithSession ''Error when try to use with session at Delete method: '')))"

subsection \<open>MatchAndLookup\<close>

definition MatchAndLookup_matchCondition :: "string \<Rightarrow> string \<Rightarrow> go_value \<times> event list" where
  "MatchAndLookup_matchCondition fieldForMatch valueForMatch =
     (if fieldForMatch = ''_id'' then
        (case ObjectIDFromHex valueForMatch of
           (oid, err) \<Rightarrow>
             (VM [(fieldForMatch, VObjectID oid)],
              if err \<noteq> None then [Printf ''%d can not convert to ObjectID'' (VObjectID oid)]
              else []))
      else (VM [(fieldForMatch, VString valueForMatch)], []))"

definition MatchAndLookup_pipeline ::
  "go_value \<Rightarrow> string \<Rightarrow> string \<Rightarrow> string \<Rightarrow> go_value" where
  "MatchAndLookup_pipeline matchCondition collectionForLookup fieldForLookup foreignField =
     VSlice
       [VM [(''$match'', matchCondition)],
        VM [(''$lookup'',
              VM [(''from'', VString collectionForLookup),
                  (''localField'', VString fieldForLookup),
                  (''foreignField'', VString foreignField),
                  (''as'', VString collectionForLookup)])]]"

definition MatchAndLookup_closure ::
  "Store \<Rightarrow> string \<Rightarrow> string \<Rightarrow> string \<Rightarrow> string \<Rightarrow> string \<Rightarrow> string \<Rightarrow> string \<Rightarrow>
   reflect_Type \<Rightarrow> unit \<Rightarrow> (go_value \<times> error option) run" where
  "MatchAndLookup_closure m databaseName collectionForMatch fieldForMatch valueForMatch
       collectionForLookup fieldForLookup foreignField dataModel sc =
     (case MatchAndLookup_matchCondition fieldForMatch valueForMatch of
        (matchCondition, t1) \<Rightarrow>
          (let pipeline =
                 MatchAndLookup_pipeline matchCondition collectionForLookup fieldForLookup
                   foreignField;
               t = t1 @ [EvAggregate databaseName collectionForMatch pipeline]
           in case Aggregate m databaseName collectionForMatch pipeline of
                Inl err \<Rightarrow> defer_call (cur_Close None) (t, Return (VNil, Some err))
              | Inr cur \<Rightarrow>
                  defer_call (cur_Close (Some cur))
                    (case Cursor_All m cur (SliceOf dataModel) of
                       (results, err) \<Rightarrow>
                         (t @ [EvCursorAll cur (SliceOf dataModel)],
                          Return (results, err)))))"

definition MatchAndLookup ::
  "Store \<Rightarrow> string \<Rightarrow> string \<Rightarrow> string \<Rightarrow> string \<Rightarrow> string \<Rightarrow> string \<Rightarrow> string \<Rightarrow>
   reflect_Type \<Rightarrow> (go_value \<times> error option) run" where
  "MatchAndLookup m databaseName collectionForMatch fieldForMatch valueForMatch
       collectionForLookup fieldForLookup foreignField dataModel =
     bind_run (createSession m) (\<lambda>session.
       defer_call session_EndSession
         (bind_run
            (WithSession
               (MatchAndLookup_closure m databaseName collectionForMatch fieldForMatch
                  valueForMatch collectionForLookup fieldForLookup foreignField dataModel))
            (after_WithSession
               ''Error when try to use with session at MatchAndLookup method: '')))"

section \<open>Reading a trace\<close>

text \<open>The calls that read or write the collections of the store.\<close>

fun is_store_access :: "event \<Rightarrow> bool" where
  "is_store_access (EvFind d c f opts) = True"
| "is_store_access (EvCursorAll c T) = True"
| "is_store_access (EvFindOne d c f) = True"
| "is_store_access (EvInsertOne d c v) = True"
| "is_store_access (EvUpdateOne d c f u) = True"
| "is_store_access (EvDeleteOne d c f) = True"
| "is_store_access (EvAggregate d c p) = True"
| "is_store_access e = False"

fun is_mutation :: "event \<Rightarrow> bool" where
  "is_mutation (EvInsertOne d c v) = True"
| "is_mutation (EvUpdateOne d c f u) = True"
| "is_mutation (EvDeleteOne d c f) = True"
| "is_mutation e = False"

fun is_session_event :: "event \<Rightarrow> bool" where
  "is_session_event SessionStarted = True"
| "is_session_event EndSession = True"
| "is_session_event e = False"

text \<open>What \<^verbatim>\<open>log.Println\<close> wrote.\<close>

fun is_log :: "event \<Rightarrow> bool" where
  "is_log (Println msg err) = True"
| "is_log e = False"

fun is_Find :: "event \<Rightarrow> bool" where
  "is_Find (EvFind d c f opts) = True"
| "is_Find e = False"

fun is_Aggregate :: "event \<Rightarrow> bool" where
  "is_Aggregate (EvAggregate d c p) = True"
| "is_Aggregate e = False"

text \<open>The type assertion \<^verbatim>\<open>ID.(primitive.ObjectID)\<close> succeeds on these values only.\<close>

fun is_ObjectID :: "go_value \<Rightarrow> bool" where
  "is_ObjectID (VObjectID oid) = True"
| "is_ObjectID v = False"

section \<open>Stores used as concrete inputs\<close>

text \<open>A store where every call succeeds.\<close>

definition store_ok :: Store where
  "store_ok =
     \<lparr>StartSession = None,
      StartTransaction = None,
      Find = (\<lambda>d c f opts. Inr 7),
      Cursor_All = (\<lambda>cur T. (VSlice [VOpaque ''doc1'', VOpaque ''doc2''], None)),
      FindOne = (\<lambda>d c f. Inr (VOpaque ''raw'')),
      Decode = (\<lambda>doc T. (VOpaque ''decoded'', None)),
      InsertOne = (\<lambda>d c v. Inr (VOpaque ''InsertOneResult'')),
      UpdateOne = (\<lambda>d c f u. Inr (VOpaque ''UpdateResult'')),
      DeleteOne = (\<lambda>d c f. Inr (VOpaque ''DeleteResult'')),
      Aggregate = (\<lambda>d c p. Inr 9)\<rparr>"

text \<open>The server cannot allocate a session.\<close>

definition store_no_session :: Store where
  "store_no_session = store_ok\<lparr>StartSession := Some (StoreError ''no session'')\<rparr>"

text \<open>The session is allocated, the transaction cannot be started.\<close>

definition store_no_transaction :: Store where
  "store_no_transaction = store_ok\<lparr>StartTransaction := Some (StoreError ''no transaction'')\<rparr>"

text \<open>A document is matched; decoding it into the target type fails.\<close>

definition store_decode_fails :: Store where
  "store_decode_fails =
     store_ok\<lparr>Decode := (\<lambda>doc T. (VNew T, Some (StoreError ''cannot decode'')))\<rparr>"

text \<open>\<^verbatim>\<open>Find\<close> and \<^verbatim>\<open>Aggregate\<close> fail.\<close>

definition store_query_fails :: Store where
  "store_query_fails =
     store_ok\<lparr>Find := (\<lambda>d c f opts. Inl (StoreError ''find failed'')),
              Aggregate := (\<lambda>d c p. Inl (StoreError ''aggregate failed''))\<rparr>"

text \<open>\<^verbatim>\<open>FindOne\<close> matches no document.\<close>

definition store_not_found :: Store where
  "store_not_found =
     store_ok\<lparr>FindOne := (\<lambda>d c f. Inl (StoreError ''mongo: no documents in result''))\<rparr>"

section \<open>Basic facts\<close>

lemmas store_defs = store_ok_def store_no_session_def store_no_transaction_def
  store_decode_fails_def store_query_fails_def store_not_found_def

lemma createSession_ok:
  "StartSession m = None \<Longrightarrow> StartTransaction m = None \<Longrightarrow>
   createSession m = ([SessionStarted, TransactionStarted], Return ())"
  by (simp add: createSession_def)

lemma createSession_failure:
  assumes "StartSession m = Some e \<or> (StartSession m = None \<and> StartTransaction m = Some e)"
  shows "snd (createSession m) = Panic (PanicError e)"
    and "filter is_store_access (fst (createSession m)) = []"
    and "filter is_log (fst (createSession m)) =
           [Println (if StartSession m = None then ''Error when try to start transaction: ''
                     else ''Error when try to start session: '') e]"
  using assms by (auto simp: createSession_def)

lemma bind_run_Return: "bind_run (t, Return x) f = (t @ fst (f x), snd (f x))"
  by (simp add: bind_run_def split: prod.splits)

lemma bind_run_Panic: "bind_run (t, Panic p) f = (t, Panic p)"
  by (simp add: bind_run_def)

lemma defer_EndSession: "defer_call session_EndSession r = (fst r @ [EndSession], snd r)"
  by (simp add: defer_call_def session_EndSession_def split: prod.splits)

lemma defer_Close_nil: "defer_call (cur_Close None) r = (fst r, Panic NilPointerDereference)"
  by (simp add: defer_call_def cur_Close_def split: prod.splits)

lemma defer_Close_cur: "defer_call (cur_Close (Some c)) r = (fst r @ [EvCursorClose c], snd r)"
  by (simp add: defer_call_def cur_Close_def split: prod.splits)

lemmas run_simps = bind_run_Return bind_run_Panic defer_EndSession defer_Close_nil
  defer_Close_cur WithSession_def after_WithSession_def

text \<open>The shape shared by the operations once the session and the transaction have started.\<close>

lemma op_after_session:
  assumes "StartSession m = None" "StartTransaction m = None"
  shows "bind_run (createSession m) (\<lambda>session.
       defer_call session_EndSession (bind_run (WithSession cl) (after_WithSession msg))) =
     (let r = cl ();
          a = (case snd r of Panic p \<Rightarrow> ([], Panic p)
               | Return x \<Rightarrow> after_WithSession msg x)
      in ([SessionStarted, TransactionStarted] @ fst r @ fst a @ [EndSession], snd a))"
  using assms
  by (cases "cl ()")
     (auto simp: createSession_ok bind_run_def defer_EndSession WithSession_def Let_def
       split: outcome.splits prod.splits)

text \<open>A failure of \<^verbatim>\<open>createSession\<close> ends the operation with its panic.\<close>

lemma op_no_session:
  assumes "StartSession m = Some e \<or> (StartSession m = None \<and> StartTransaction m = Some e)"
  shows "snd (bind_run (createSession m) f) = Panic (PanicError e) \<and>
         filter is_store_access (fst (bind_run (createSession m) f)) = [] \<and>
         filter is_log (fst (bind_run (createSession m) f)) =
           [Println (if StartSession m = None then ''Error when try to start transaction: ''
                     else ''Error when try to start session: '') e]"
proof -
  obtain t where "createSession m = (t, Panic (PanicError e))"
    using createSession_failure(1) [OF assms] by (cases "createSession m") simp
  then show ?thesis
    using createSession_failure(2,3) [OF assms] by (simp add: bind_run_def)
qed

subsection \<open>The two decoders\<close>

lemma ObjectIDFromHex_failure:
  "snd (ObjectIDFromHex s) \<noteq> None \<Longrightarrow> fst (ObjectIDFromHex s) = NilObjectID"
  by (simp add: ObjectIDFromHex_def split: sum.splits if_splits)

lemma ObjectIDFromHex_success:
  "snd (ObjectIDFromHex s) = None \<Longrightarrow>
   hex_DecodeString s = Inr (fst (ObjectIDFromHex s)) \<and> length (fst (ObjectIDFromHex s)) = 12"
  by (simp add: ObjectIDFromHex_def split: sum.splits if_splits)

lemma ObjectIDFromHex_sample:
  "ObjectIDFromHex ''5f1a2b3c4d5e6f7a8b9c0d1e'' =
     ([95, 26, 43, 60, 77, 94, 111, 122, 139, 156, 13, 30], None)"
  by (simp add: ObjectIDFromHex_def fromHexChar_def)

lemma ObjectIDFromHex_xyz:
  "ObjectIDFromHex ''xyz'' = (NilObjectID, Some (InvalidByteError CHR ''x''))"
  by (simp add: ObjectIDFromHex_def fromHexChar_def)

lemma ParseInt_2: "ParseInt ''2'' = (2, None)"
  by (simp add: ParseInt_def ParseUint_def maxUint64_def)

lemma ParseInt_abc: "ParseInt ''abc'' = (0, Some ErrSyntax)"
  by (simp add: ParseInt_def ParseUint_def maxUint64_def)

lemma ParseInt_failure_value:
  "snd (ParseInt s) \<noteq> None \<Longrightarrow> fst (ParseInt s) \<in> {0, 2 ^ 63 - 1, - (2 ^ 63)}"
  by (auto simp: ParseInt_def Let_def split: prod.splits if_splits)

subsection \<open>The closures\<close>

lemma GetALL_filter_fst:
  "fst (GetALL_filter lastID) =
     (if lastID = [] then VM []
      else VM [(''_id'', VM [(''$gt'', VObjectID (fst (ObjectIDFromHex lastID)))])])"
  by (simp add: GetALL_filter_def split: prod.splits)

lemma GetALL_findOptions_fst:
  "fst (GetALL_findOptions pageSize) =
     \<lparr>Limit = Some (fst (ParseInt pageSize)), Sort = Some (VD [(''_id'', VInt 1)])\<rparr>"
  by (simp add: GetALL_findOptions_def split: prod.splits)

lemma GetALL_findOptions_snd:
  "snd (GetALL_findOptions pageSize) =
     (if snd (ParseInt pageSize) \<noteq> None
      then [Printf ''%d can not convert to int64'' (VInt (fst (ParseInt pageSize)))] else [])"
  by (simp add: GetALL_findOptions_def split: prod.splits)

lemma GetALL_filter_snd_quiet:
  "filter is_Find (snd (GetALL_filter s)) = []"
  "filter is_session_event (snd (GetALL_filter s)) = []"
  by (simp_all add: GetALL_filter_def split: prod.splits)

lemma GetALL_findOptions_snd_quiet:
  "filter is_Find (snd (GetALL_findOptions s)) = []"
  "filter is_session_event (snd (GetALL_findOptions s)) = []"
  by (simp_all add: GetALL_findOptions_def split: prod.splits)

lemma after_WithSession_quiet:
  "filter is_Find (fst (after_WithSession msg x)) = []"
  "filter is_Aggregate (fst (after_WithSession msg x)) = []"
  "filter is_session_event (fst (after_WithSession msg x)) = []"
  by (simp_all add: after_WithSession_def split: prod.splits option.splits)

lemma GetALL_closure_eq:
  "GetALL_closure m db coll lastID pageSize T () =
     (let t = snd (GetALL_filter lastID) @ snd (GetALL_findOptions pageSize) @
              [EvFind db coll (fst (GetALL_filter lastID)) (fst (GetALL_findOptions pageSize))]
      in case Find m db coll (fst (GetALL_filter lastID)) (fst (GetALL_findOptions pageSize)) of
           Inl err \<Rightarrow> (t, Panic NilPointerDereference)
         | Inr cur \<Rightarrow>
             (t @ [EvCursorAll cur (SliceOf T), EvCursorClose cur],
              Return (Cursor_All m cur (SliceOf T))))"
  by (cases "GetALL_filter lastID"; cases "GetALL_findOptions pageSize")
     (simp add: GetALL_closure_def Let_def defer_Close_nil defer_Close_cur
        split: sum.splits prod.splits)

lemma GetALL_after_session:
  assumes "StartSession m = None" "StartTransaction m = None"
    and "\<not> (db = [] \<and> coll = [] \<and> lastID = [] \<and> pageSize = [])"
  shows "GetALL m db coll lastID pageSize T =
     (let r = GetALL_closure m db coll lastID pageSize T ();
          a = (case snd r of Panic p \<Rightarrow> ([], Panic p)
               | Return x \<Rightarrow>
                   after_WithSession ''Error when try to use with session at GetALL method: '' x)
      in ([SessionStarted, TransactionStarted] @ fst r @ fst a @ [EndSession], snd a))"
  using assms
  by (cases "GetALL_closure m db coll lastID pageSize T ()")
     (auto simp: GetALL_def createSession_ok bind_run_def defer_EndSession WithSession_def Let_def
       split: outcome.splits prod.splits)

lemma GetALL_Find_calls:
  assumes "StartSession m = None" "StartTransaction m = None"
    and "\<not> (db = [] \<and> coll = [] \<and> lastID = [] \<and> pageSize = [])"
  shows "filter is_Find (fst (GetALL m db coll lastID pageSize T)) =
     [EvFind db coll (fst (GetALL_filter lastID)) (fst (GetALL_findOptions pageSize))]"
  unfolding GetALL_after_session [OF assms] GetALL_closure_eq
  by (simp add: Let_def GetALL_filter_snd_quiet GetALL_findOptions_snd_quiet
      after_WithSession_quiet split: sum.splits outcome.splits)

lemma GetALL_success:
  assumes "StartSession m = None" "StartTransaction m = None"
    and "\<not> (db = [] \<and> coll = [] \<and> lastID = [] \<and> pageSize = [])"
    and "Find m db coll (fst (GetALL_filter lastID)) (fst (GetALL_findOptions pageSize)) = Inr c"
    and "Cursor_All m c (SliceOf T) = (r, None)"
  shows "snd (GetALL m db coll lastID pageSize T) = Return (r, None)"
  unfolding GetALL_after_session [OF assms(1-3)] GetALL_closure_eq
  using assms(4,5) by (simp add: Let_def after_WithSession_def)

lemma GetALL_printf_pageSize:
  assumes "StartSession m = None" "StartTransaction m = None"
    and "\<not> (db = [] \<and> coll = [] \<and> lastID = [] \<and> pageSize = [])"
    and "snd (ParseInt pageSize) \<noteq> None"
  shows "Printf ''%d can not convert to int64'' (VInt (fst (ParseInt pageSize)))
           \<in> set (fst (GetALL m db coll lastID pageSize T))"
  unfolding GetALL_after_session [OF assms(1-3)] GetALL_closure_eq
  using assms(4) by (simp add: Let_def GetALL_findOptions_snd split: sum.splits)

lemma MatchAndLookup_matchCondition_fst:
  "fst (MatchAndLookup_matchCondition fieldForMatch valueForMatch) =
     VM [(fieldForMatch,
          if fieldForMatch = ''_id'' then VObjectID (fst (ObjectIDFromHex valueForMatch))
          else VString valueForMatch)]"
  by (simp add: MatchAndLookup_matchCondition_def split: prod.splits)

lemma MatchAndLookup_matchCondition_snd_quiet:
  "filter is_Aggregate (snd (MatchAndLookup_matchCondition f v)) = []"
  "filter is_session_event (snd (MatchAndLookup_matchCondition f v)) = []"
  by (simp_all add: MatchAndLookup_matchCondition_def split: prod.splits)

lemma MatchAndLookup_closure_eq:
  "MatchAndLookup_closure m db cm fm vm cl fl ff T () =
     (let pipeline = MatchAndLookup_pipeline (fst (MatchAndLookup_matchCondition fm vm)) cl fl ff;
          t = snd (MatchAndLookup_matchCondition fm vm) @ [EvAggregate db cm pipeline]
      in case Aggregate m db cm pipeline of
           Inl err \<Rightarrow> (t, Panic NilPointerDereference)
         | Inr cur \<Rightarrow>
             (t @ [EvCursorAll cur (SliceOf T), EvCursorClose cur],
              Return (Cursor_All m cur (SliceOf T))))"
  by (cases "MatchAndLookup_matchCondition fm vm")
     (simp add: MatchAndLookup_closure_def Let_def defer_Close_nil defer_Close_cur
        split: sum.splits prod.splits)

lemma MatchAndLookup_Aggregate_calls:
  assumes "StartSession m = None" "StartTransaction m = None"
  shows "filter is_Aggregate (fst (MatchAndLookup m db cm fm vm cl fl ff T)) =
     [EvAggregate db cm
        (MatchAndLookup_pipeline (fst (MatchAndLookup_matchCondition fm vm)) cl fl ff)]"
  unfolding MatchAndLookup_def op_after_session [OF assms] MatchAndLookup_closure_eq
  by (simp add: Let_def MatchAndLookup_matchCondition_snd_quiet after_WithSession_quiet
      split: sum.splits outcome.splits)

lemma GetByField_closure_quiet:
  "filter is_session_event (fst (GetByField_closure m db coll field val T ())) = []"
  by (auto simp: GetByField_closure_def GetByField_filter_def Let_def
      split: sum.splits prod.splits)

lemma Create_closure_quiet:
  "filter is_session_event (fst (Create_closure m db coll dataModel ())) = []"
  by (simp add: Create_closure_def Let_def split: sum.splits)

lemma Update_closure_quiet:
  "filter is_session_event (fst (Update_closure m db coll ID dataModel ())) = []"
  by (simp add: Update_closure_def Let_def split: sum.splits go_value.splits)

lemma Delete_closure_quiet:
  "filter is_session_event (fst (Delete_closure m db coll ID ())) = []"
  by (simp add: Delete_closure_def Let_def split: sum.splits go_value.splits)

lemma GetALL_closure_quiet:
  "filter is_session_event (fst (GetALL_closure m db coll lastID pageSize T ())) = []"
  unfolding GetALL_closure_eq
  by (simp add: Let_def GetALL_filter_snd_quiet GetALL_findOptions_snd_quiet split: sum.splits)

lemma MatchAndLookup_closure_quiet:
  "filter is_session_event (fst (MatchAndLookup_closure m db cm fm vm cl fl ff T ())) = []"
  unfolding MatchAndLookup_closure_eq
  by (simp add: Let_def MatchAndLookup_matchCondition_snd_quiet split: sum.splits)

lemma op_session_events:
  assumes "StartSession m = None" "StartTransaction m = None"
    and "filter is_session_event (fst (cl ())) = []"
  shows "filter is_session_event
           (fst (bind_run (createSession m) (\<lambda>session.
              defer_call session_EndSession
                (bind_run (WithSession cl) (after_WithSession msg))))) =
         [SessionStarted, EndSession]"
  unfolding op_after_session [OF assms(1,2)]
  using assms(3) by (simp add: Let_def after_WithSession_quiet split: outcome.splits)

text \<open>
  Once \<^verbatim>\<open>createSession\<close> has returned, every operation ends the session exactly once,
  whether it returns a result, returns an error or panics on the nil cursor.
\<close>

lemma session_released_once_after_createSession:
  assumes "StartSession m = None" "StartTransaction m = None"
  shows "filter is_session_event (fst (GetALL m db coll lastID pageSize T)) =
           [SessionStarted, EndSession]"
    and "filter is_session_event (fst (GetByField m db coll field val T)) =
           [SessionStarted, EndSession]"
    and "filter is_session_event (fst (Create m db coll dataModel)) =
           [SessionStarted, EndSession]"
    and "filter is_session_event (fst (Update m db coll ID dataModel)) =
           [SessionStarted, EndSession]"
    and "filter is_session_event (fst (Delete m db coll ID)) =
           [SessionStarted, EndSession]"
    and "filter is_session_event (fst (MatchAndLookup m db cm fm vm cl fl ff T)) =
           [SessionStarted, EndSession]"
proof -
  show "filter is_session_event (fst (GetALL m db coll lastID pageSize T)) =
           [SessionStarted, EndSession]"
  proof (cases "db = [] \<and> coll = [] \<and> lastID = [] \<and> pageSize = []")
    case True
    then show ?thesis
      by (simp add: GetALL_def createSession_ok [OF assms] run_simps)
  next
    case False
    show ?thesis
      unfolding GetALL_after_session [OF assms False]
      by (simp add: Let_def GetALL_closure_quiet after_WithSession_quiet split: outcome.splits)
  qed
qed (simp_all add: GetByField_def Create_def Update_def Delete_def MatchAndLookup_def
      op_session_events [OF assms] GetByField_closure_quiet Create_closure_quiet
      Update_closure_quiet Delete_closure_quiet MatchAndLookup_closure_quiet)

lemma ObjectIDFromHex_zero:
  "ObjectIDFromHex ''000000000000000000000000'' = (NilObjectID, None)"
  by (simp add: ObjectIDFromHex_def fromHexChar_def NilObjectID_def eval_nat_numeral)

lemma GetByField_closure_eq:
  "GetByField_closure m db coll field val T () =
     (let t = snd (GetByField_filter field val) @
              [EvFindOne db coll (fst (GetByField_filter field val))]
      in case FindOne m db coll (fst (GetByField_filter field val)) of
           Inl err \<Rightarrow> (t, Return (VNil, Some err))
         | Inr doc \<Rightarrow>
             (t @ [EvDecode doc T],
              if snd (Decode m doc T) = None then Return (Decode m doc T)
              else Return (fst (Decode m doc T), None)))"
  by (cases "GetByField_filter field val"; cases "FindOne m db coll (fst (GetByField_filter field val))")
     (auto simp: GetByField_closure_def Let_def split: prod.splits)

lemma GetByField_filter_malformed:
  "snd (ObjectIDFromHex val) \<noteq> None \<Longrightarrow>
   GetByField_filter ''_id'' val =
     (VM [(''_id'', VObjectID NilObjectID)],
      [Printf ''%d can not convert to ObjectID'' (VObjectID NilObjectID)])"
  using ObjectIDFromHex_failure [of val]
  by (cases "ObjectIDFromHex val") (auto simp: GetByField_filter_def)

lemma GetByField_filter_zero:
  "GetByField_filter ''_id'' ''000000000000000000000000'' =
     (VM [(''_id'', VObjectID NilObjectID)], [])"
  by (simp add: GetByField_filter_def ObjectIDFromHex_zero)

lemma ParseInt_minus_5: "ParseInt ''-5'' = (- 5, None)"
  by (simp add: ParseInt_def ParseUint_def maxUint64_def)

lemma GetALL_outcome:
  assumes "StartSession m = None" "StartTransaction m = None"
    and "\<not> (db = [] \<and> coll = [] \<and> lastID = [] \<and> pageSize = [])"
    and "Find m db coll (fst (GetALL_filter lastID)) (fst (GetALL_findOptions pageSize)) = Inr c"
  shows "snd (GetALL m db coll lastID pageSize T) =
     (case Cursor_All m c (SliceOf T) of
        (r, None) \<Rightarrow> Return (r, None)
      | (r, Some e) \<Rightarrow> Return (VNil, Some e))"
  unfolding GetALL_after_session [OF assms(1-3)] GetALL_closure_eq
  using assms(4)
  by (cases "Cursor_All m c (SliceOf T)")
     (simp add: Let_def after_WithSession_def split: option.splits)

lemma GetALL_no_pageSize_message:
  assumes "StartSession m = None" "StartTransaction m = None"
    and "\<not> (db = [] \<and> coll = [] \<and> lastID = [] \<and> pageSize = [])"
    and "snd (ParseInt pageSize) = None"
  shows "Printf ''%d can not convert to int64'' v \<notin> set (fst (GetALL m db coll lastID pageSize T))"
  unfolding GetALL_after_session [OF assms(1-3)] GetALL_closure_eq
  using assms(4)
  by (cases "ObjectIDFromHex lastID")
     (auto simp: Let_def GetALL_findOptions_snd GetALL_filter_def after_WithSession_def
        split: sum.splits outcome.splits option.splits prod.splits if_splits)

section \<open>The claims\<close>

subsection \<open>C1: release of the session\<close>

text \<open>
  C1. For every public operation and every exit path (success, store error, decode error,
  panic), the session created for the call is released exactly once. The code misses one
  path: when \<^verbatim>\<open>StartSession\<close> succeeds and \<^verbatim>\<open>StartTransaction\<close> fails,
  \<^verbatim>\<open>createSession\<close> panics before the caller has deferred \<^verbatim>\<open>EndSession\<close>. On
  such a store each of the six operations opens a session, never ends it, and panics.
\<close>

theorem session_leaked_when_transaction_fails:
  "filter is_session_event
     (fst (GetALL store_no_transaction ''db'' ''users'' [] ''2'' (NamedType ''User''))) =
     [SessionStarted] \<and>
   filter is_session_event
     (fst (GetByField store_no_transaction ''db'' ''users'' ''name'' ''bob''
        (NamedType ''User''))) = [SessionStarted] \<and>
   filter is_session_event
     (fst (Create store_no_transaction ''db'' ''users'' (VOpaque ''record''))) =
     [SessionStarted] \<and>
   filter is_session_event
     (fst (Update store_no_transaction ''db'' ''users'' (VObjectID NilObjectID)
        (VOpaque ''patch''))) = [SessionStarted] \<and>
   filter is_session_event
     (fst (Delete store_no_transaction ''db'' ''users'' (VObjectID NilObjectID))) =
     [SessionStarted] \<and>
   filter is_session_event
     (fst (MatchAndLookup store_no_transaction ''db'' ''orders'' ''status'' ''open'' ''users''
        ''userId'' ''_id'' (NamedType ''Order''))) = [SessionStarted] \<and>
   snd (GetALL store_no_transaction ''db'' ''users'' [] ''2'' (NamedType ''User'')) =
     Panic (PanicError (StoreError ''no transaction''))"
  by (simp add: GetALL_def GetByField_def Create_def Update_def Delete_def MatchAndLookup_def
      createSession_def store_defs bind_run_Panic)

subsection \<open>C2: a malformed identifier in GetByField\<close>

text \<open>
  C2, as the code has it. For every call to GetByField with field name \<^verbatim>\<open>_id\<close> and a
  value that does not decode to an ObjectID, once the session and the transaction have
  started the operation prints a message and goes on with the zero identifier: its first
  store call is \<^verbatim>\<open>FindOne\<close> with the filter \<^verbatim>\<open>{_id: NilObjectID}\<close>, and from
  there it does, on every path, what the same call does when given the well-formed text
  of the zero identifier (24 zeros): the same calls and the same outcome. The malformed
  identifier adds no error of its own: when \<^verbatim>\<open>FindOne\<close> fails the error returned is
  the one \<^verbatim>\<open>FindOne\<close> gave, and when a document is matched and decoded the decoded
  document is returned with no error.
\<close>

theorem GetByField_malformed_id_queries_zero_id:
  assumes "StartSession m = None" "StartTransaction m = None"
    and "snd (ObjectIDFromHex val) \<noteq> None"
  shows "take 4 (fst (GetByField m db coll ''_id'' val T)) =
           [SessionStarted, TransactionStarted,
            Printf ''%d can not convert to ObjectID'' (VObjectID NilObjectID),
            EvFindOne db coll (VM [(''_id'', VObjectID NilObjectID)])] \<and>
         fst (GetByField m db coll ''_id'' val T) =
           [SessionStarted, TransactionStarted,
            Printf ''%d can not convert to ObjectID'' (VObjectID NilObjectID)] @
           drop 2 (fst (GetByField m db coll ''_id'' ''000000000000000000000000'' T)) \<and>
         snd (GetByField m db coll ''_id'' val T) =
           snd (GetByField m db coll ''_id'' ''000000000000000000000000'' T) \<and>
         (\<forall>e. FindOne m db coll (VM [(''_id'', VObjectID NilObjectID)]) = Inl e \<longrightarrow>
            snd (GetByField m db coll ''_id'' val T) = Return (VNil, Some e)) \<and>
         (\<forall>doc. FindOne m db coll (VM [(''_id'', VObjectID NilObjectID)]) = Inr doc \<and>
                snd (Decode m doc T) = None \<longrightarrow>
            snd (GetByField m db coll ''_id'' val T) = Return (fst (Decode m doc T), None))"
proof (cases "FindOne m db coll (VM [(''_id'', VObjectID NilObjectID)])")
  case (Inl e)
  then show ?thesis
    unfolding GetByField_def op_after_session [OF assms(1,2)] GetByField_closure_eq
    by (simp add: Let_def GetByField_filter_malformed [OF assms(3)] GetByField_filter_zero
        after_WithSession_def)
next
  case (Inr doc)
  then show ?thesis
    unfolding GetByField_def op_after_session [OF assms(1,2)] GetByField_closure_eq
    by (cases "Decode m doc T")
       (simp add: Let_def GetByField_filter_malformed [OF assms(3)] GetByField_filter_zero
        after_WithSession_def)
qed

theorem GetByField_malformed_id_queries_zero_id_witness:
  "take 4 (fst (GetByField store_not_found ''db'' ''users'' ''_id'' ''xyz'' (NamedType ''User''))) =
     [SessionStarted, TransactionStarted,
      Printf ''%d can not convert to ObjectID'' (VObjectID NilObjectID),
      EvFindOne ''db'' ''users'' (VM [(''_id'', VObjectID NilObjectID)])] \<and>
   snd (GetByField store_not_found ''db'' ''users'' ''_id'' ''xyz'' (NamedType ''User'')) =
     Return (VNil, Some (StoreError ''mongo: no documents in result'')) \<and>
   snd (GetByField store_ok ''db'' ''users'' ''_id'' ''xyz'' (NamedType ''User'')) =
     Return (VOpaque ''decoded'', None)"
proof -
  have a: "StartSession store_not_found = None" "StartTransaction store_not_found = None"
    by (simp_all add: store_defs)
  have a': "StartSession store_ok = None" "StartTransaction store_ok = None"
    by (simp_all add: store_defs)
  have b: "snd (ObjectIDFromHex ''xyz'') \<noteq> None"
    by (simp add: ObjectIDFromHex_xyz)
  have c: "FindOne store_not_found ''db'' ''users'' (VM [(''_id'', VObjectID NilObjectID)]) =
      Inl (StoreError ''mongo: no documents in result'')"
    by (simp add: store_defs)
  have d: "FindOne store_ok ''db'' ''users'' (VM [(''_id'', VObjectID NilObjectID)]) =
      Inr (VOpaque ''raw'') \<and>
      snd (Decode store_ok (VOpaque ''raw'') (NamedType ''User'')) = None"
    by (simp add: store_defs)
  have d': "fst (Decode store_ok (VOpaque ''raw'') (NamedType ''User'')) = VOpaque ''decoded''"
    by (simp add: store_defs)
  note w = GetByField_malformed_id_queries_zero_id [OF a b, where db = "''db''"
        and coll = "''users''" and T = "NamedType ''User''"]
  note w' = GetByField_malformed_id_queries_zero_id [OF a' b, where db = "''db''"
        and coll = "''users''" and T = "NamedType ''User''"]
  have "take 4 (fst (GetByField store_not_found ''db'' ''users'' ''_id'' ''xyz''
        (NamedType ''User''))) =
     [SessionStarted, TransactionStarted,
      Printf ''%d can not convert to ObjectID'' (VObjectID NilObjectID),
      EvFindOne ''db'' ''users'' (VM [(''_id'', VObjectID NilObjectID)])]"
    using w by blast
  moreover have "snd (GetByField store_not_found ''db'' ''users'' ''_id'' ''xyz''
        (NamedType ''User'')) =
     Return (VNil, Some (StoreError ''mongo: no documents in result''))"
    using w c by blast
  moreover have "snd (GetByField store_ok ''db'' ''users'' ''_id'' ''xyz'' (NamedType ''User'')) =
     Return (fst (Decode store_ok (VOpaque ''raw'') (NamedType ''User'')), None)"
    using w' d by blast
  ultimately show ?thesis
    by (simp only: d' simp_thms)
qed

text \<open>
  The claim as written (the call fails with an identifier error before any store access)
  does not hold: with the value \<^verbatim>\<open>xyz\<close> the store is queried for the zero identifier and
  the call returns the decoded document with no error.
\<close>

theorem GetByField_malformed_id_counterexample:
  "snd (ObjectIDFromHex ''xyz'') \<noteq> None \<and>
   GetByField store_ok ''db'' ''users'' ''_id'' ''xyz'' (NamedType ''User'') =
     ([SessionStarted, TransactionStarted,
       Printf ''%d can not convert to ObjectID'' (VObjectID NilObjectID),
       EvFindOne ''db'' ''users'' (VM [(''_id'', VObjectID NilObjectID)]),
       EvDecode (VOpaque ''raw'') (NamedType ''User''), EndSession],
      Return (VOpaque ''decoded'', None))"
  by (simp add: GetByField_def GetByField_closure_def GetByField_filter_def ObjectIDFromHex_xyz
      createSession_def store_defs run_simps)

subsection \<open>C3: a decode failure in GetByField\<close>

text \<open>
  C3. When a document is matched but cannot be decoded into the target type, GetByField
  must return the decode error. The closure tests \<^verbatim>\<open>err == nil\<close> where the other
  closures test \<^verbatim>\<open>err != nil\<close>, so it returns nil either way: on a store whose
  \<^verbatim>\<open>Decode\<close> fails, the call returns the undecoded target and no error.
\<close>

theorem GetByField_swallows_decode_error:
  "Decode store_decode_fails (VOpaque ''raw'') (NamedType ''User'') =
     (VNew (NamedType ''User''), Some (StoreError ''cannot decode'')) \<and>
   GetByField store_decode_fails ''db'' ''users'' ''name'' ''bob'' (NamedType ''User'') =
     ([SessionStarted, TransactionStarted,
       EvFindOne ''db'' ''users'' (VM [(''name'', VString ''bob'')]),
       EvDecode (VOpaque ''raw'') (NamedType ''User''), EndSession],
      Return (VNew (NamedType ''User''), None))"
  by (simp add: GetByField_def GetByField_closure_def GetByField_filter_def createSession_def
      store_defs run_simps)

subsection \<open>C4: failure to open the session or to start the transaction\<close>

text \<open>
  C4, as the code has it. For every public operation, if the store cannot allocate a
  session or the transaction cannot be started, the operation does not return an error to
  its caller: \<^verbatim>\<open>createSession\<close> logs the store's error (one line, naming the step
  that failed) and panics with that error, and the operation has made no call that reads
  or writes a collection.
\<close>

theorem operations_panic_without_session:
  assumes "StartSession m = Some e \<or> (StartSession m = None \<and> StartTransaction m = Some e)"
  shows "snd (GetALL m db coll lastID pageSize T) = Panic (PanicError e) \<and>
         filter is_store_access (fst (GetALL m db coll lastID pageSize T)) = [] \<and>
         filter is_log (fst (GetALL m db coll lastID pageSize T)) =
           [Println (if StartSession m = None then ''Error when try to start transaction: ''
                     else ''Error when try to start session: '') e] \<and>
         snd (GetByField m db coll field val T) = Panic (PanicError e) \<and>
         filter is_store_access (fst (GetByField m db coll field val T)) = [] \<and>
         filter is_log (fst (GetByField m db coll field val T)) =
           [Println (if StartSession m = None then ''Error when try to start transaction: ''
                     else ''Error when try to start session: '') e] \<and>
         snd (Create m db coll dataModel) = Panic (PanicError e) \<and>
         filter is_store_access (fst (Create m db coll dataModel)) = [] \<and>
         filter is_log (fst (Create m db coll dataModel)) =
           [Println (if StartSession m = None then ''Error when try to start transaction: ''
                     else ''Error when try to start session: '') e] \<and>
         snd (Update m db coll ID dataModel) = Panic (PanicError e) \<and>
         filter is_store_access (fst (Update m db coll ID dataModel)) = [] \<and>
         filter is_log (fst (Update m db coll ID dataModel)) =
           [Println (if StartSession m = None then ''Error when try to start transaction: ''
                     else ''Error when try to start session: '') e] \<and>
         snd (Delete m db coll ID) = Panic (PanicError e) \<and>
         filter is_store_access (fst (Delete m db coll ID)) = [] \<and>
         filter is_log (fst (Delete m db coll ID)) =
           [Println (if StartSession m = None then ''Error when try to start transaction: ''
                     else ''Error when try to start session: '') e] \<and>
         snd (MatchAndLookup m db coll fm vm cl fl ff T) = Panic (PanicError e) \<and>
         filter is_store_access (fst (MatchAndLookup m db coll fm vm cl fl ff T)) = [] \<and>
         filter is_log (fst (MatchAndLookup m db coll fm vm cl fl ff T)) =
           [Println (if StartSession m = None then ''Error when try to start transaction: ''
                     else ''Error when try to start session: '') e]"
  unfolding GetALL_def GetByField_def Create_def Update_def Delete_def MatchAndLookup_def
  using op_no_session [OF assms] by blast

theorem operations_panic_without_session_witness:
  "snd (Update store_no_session ''db'' ''users'' (VObjectID NilObjectID) (VOpaque ''patch'')) =
     Panic (PanicError (StoreError ''no session'')) \<and>
   filter is_log
     (fst (Update store_no_session ''db'' ''users'' (VObjectID NilObjectID)
        (VOpaque ''patch''))) =
     [Println ''Error when try to start session: '' (StoreError ''no session'')] \<and>
   snd (Delete store_no_transaction ''db'' ''users'' (VObjectID NilObjectID)) =
     Panic (PanicError (StoreError ''no transaction'')) \<and>
   filter is_log
     (fst (Delete store_no_transaction ''db'' ''users'' (VObjectID NilObjectID))) =
     [Println ''Error when try to start transaction: '' (StoreError ''no transaction'')]"
proof -
  have a: "StartSession store_no_session = Some (StoreError ''no session'') \<or>
      (StartSession store_no_session = None \<and>
       StartTransaction store_no_session = Some (StoreError ''no session''))"
    by (simp add: store_defs)
  have a': "StartSession store_no_session \<noteq> None"
    by (simp add: store_defs)
  have b: "StartSession store_no_transaction = Some (StoreError ''no transaction'') \<or>
      (StartSession store_no_transaction = None \<and>
       StartTransaction store_no_transaction = Some (StoreError ''no transaction''))"
    by (simp add: store_defs)
  have b': "StartSession store_no_transaction = None"
    by (simp add: store_defs)
  show ?thesis
    using operations_panic_without_session [OF a, where db = "''db''" and coll = "''users''"
          and ID = "VObjectID NilObjectID"
          and dataModel = "VOpaque ''patch''" and lastID = "[]" and pageSize = "''2''"
          and T = "NamedType ''User''" and field = "''name''" and val = "''bob''"
          and fm = "''name''" and vm = "''bob''" and cl = "''orders''" and fl = "''_id''"
          and ff = "''userId''"]
      operations_panic_without_session [OF b, where db = "''db''" and coll = "''users''"
          and ID = "VObjectID NilObjectID"
          and dataModel = "VOpaque ''patch''" and lastID = "[]" and pageSize = "''2''"
          and T = "NamedType ''User''" and field = "''name''" and val = "''bob''"
          and fm = "''name''" and vm = "''bob''" and cl = "''orders''" and fl = "''_id''"
          and ff = "''userId''"]
    by (simp add: a' b')
qed

text \<open>
  The claim as written (the operation returns a session or transaction error to the
  caller and never aborts) does not hold: Create panics on both stores.
\<close>

theorem Create_session_error_counterexample:
  "Create store_no_session ''db'' ''users'' (VOpaque ''record'') =
     ([Println ''Error when try to start session: '' (StoreError ''no session'')],
      Panic (PanicError (StoreError ''no session''))) \<and>
   Create store_no_transaction ''db'' ''users'' (VOpaque ''record'') =
     ([SessionStarted,
       Println ''Error when try to start transaction: '' (StoreError ''no transaction'')],
      Panic (PanicError (StoreError ''no transaction'')))"
  by (simp add: Create_def createSession_def store_defs bind_run_Panic)

subsection \<open>C5: the query GetALL issues\<close>

text \<open>
  C5. For every call to GetALL that reaches the store query (the session and the
  transaction have started and the four strings are not all empty), exactly one
  \<^verbatim>\<open>Find\<close> is issued, on the named collection: its filter is empty when lastID is
  empty and is \<^verbatim>\<open>{_id: {$gt: id}}\<close> with the identifier decoded from lastID otherwise,
  its sort is ascending by \<^verbatim>\<open>_id\<close>, and its limit is the integer parsed from pageSize.
\<close>

theorem GetALL_query_shape:
  assumes "StartSession m = None" "StartTransaction m = None"
    and "\<not> (db = [] \<and> coll = [] \<and> lastID = [] \<and> pageSize = [])"
  shows "filter is_Find (fst (GetALL m db coll lastID pageSize T)) =
     [EvFind db coll
        (if lastID = [] then VM []
         else VM [(''_id'', VM [(''$gt'', VObjectID (fst (ObjectIDFromHex lastID)))])])
        \<lparr>Limit = Some (fst (ParseInt pageSize)), Sort = Some (VD [(''_id'', VInt 1)])\<rparr>]"
  using GetALL_Find_calls [OF assms]
  by (simp only: GetALL_filter_fst GetALL_findOptions_fst)

theorem GetALL_query_shape_witness:
  "filter is_Find
     (fst (GetALL store_ok ''db'' ''users'' ''5f1a2b3c4d5e6f7a8b9c0d1e'' ''2''
        (NamedType ''User''))) =
     [EvFind ''db'' ''users''
        (VM [(''_id'',
              VM [(''$gt'',
                   VObjectID [95, 26, 43, 60, 77, 94, 111, 122, 139, 156, 13, 30])])])
        \<lparr>Limit = Some 2, Sort = Some (VD [(''_id'', VInt 1)])\<rparr>] \<and>
   filter is_Find (fst (GetALL store_ok ''db'' ''users'' [] ''2'' (NamedType ''User''))) =
     [EvFind ''db'' ''users'' (VM [])
        \<lparr>Limit = Some 2, Sort = Some (VD [(''_id'', VInt 1)])\<rparr>]"
proof -
  have a: "StartSession store_ok = None" "StartTransaction store_ok = None"
    by (simp_all add: store_defs)
  have b: "\<not> (''db'' = [] \<and> ''users'' = [] \<and> ''5f1a2b3c4d5e6f7a8b9c0d1e'' = [] \<and> ''2'' = [])"
    by simp
  have c: "\<not> (''db'' = [] \<and> ''users'' = [] \<and> ([]::string) = [] \<and> ''2'' = [])"
    by simp
  show ?thesis
    using GetALL_query_shape [OF a b, where T = "NamedType ''User''"]
      GetALL_query_shape [OF a c, where T = "NamedType ''User''"]
    by (simp add: ObjectIDFromHex_sample ParseInt_2)
qed

subsection \<open>C6: a page size that is no valid non-negative integer\<close>

text \<open>
  C6, as the code has it. For every call to GetALL that reaches the store query with a
  pageSize that does not parse as a valid non-negative integer (\<^verbatim>\<open>ParseInt\<close> rejects
  it, or accepts it with a negative value), the call is not rejected for it. The one
  \<^verbatim>\<open>Find\<close> is issued with the value \<^verbatim>\<open>ParseInt\<close> returned as its limit; when
  \<^verbatim>\<open>Find\<close> succeeds the outcome is that of decoding its cursor, the result or the
  cursor's error. A string \<^verbatim>\<open>ParseInt\<close> rejects is reported by a printed message
  and gives the limit 0 (syntax error) or the nearest \<^verbatim>\<open>int64\<close> bound (range error);
  a negative size is passed on as it is, with no message.
\<close>

theorem GetALL_invalid_pageSize_proceeds:
  assumes "StartSession m = None" "StartTransaction m = None"
    and "\<not> (db = [] \<and> coll = [] \<and> lastID = [] \<and> pageSize = [])"
    and "\<not> (snd (ParseInt pageSize) = None \<and> 0 \<le> fst (ParseInt pageSize))"
  shows "filter is_Find (fst (GetALL m db coll lastID pageSize T)) =
           [EvFind db coll (fst (GetALL_filter lastID))
              \<lparr>Limit = Some (fst (ParseInt pageSize)),
                 Sort = Some (VD [(''_id'', VInt 1)])\<rparr>] \<and>
         (\<forall>c. Find m db coll (fst (GetALL_filter lastID))
                  \<lparr>Limit = Some (fst (ParseInt pageSize)),
                     Sort = Some (VD [(''_id'', VInt 1)])\<rparr> = Inr c \<longrightarrow>
              snd (GetALL m db coll lastID pageSize T) =
                (case Cursor_All m c (SliceOf T) of
                   (r, None) \<Rightarrow> Return (r, None)
                 | (r, Some e) \<Rightarrow> Return (VNil, Some e))) \<and>
         (snd (ParseInt pageSize) \<noteq> None \<longrightarrow>
            Printf ''%d can not convert to int64'' (VInt (fst (ParseInt pageSize)))
              \<in> set (fst (GetALL m db coll lastID pageSize T)) \<and>
            fst (ParseInt pageSize) \<in> {0, 2 ^ 63 - 1, - (2 ^ 63)}) \<and>
         (snd (ParseInt pageSize) = None \<longrightarrow>
            fst (ParseInt pageSize) < 0 \<and>
            (\<forall>v. Printf ''%d can not convert to int64'' v
                   \<notin> set (fst (GetALL m db coll lastID pageSize T))))"
proof -
  note ok = assms(1-3)
  have "filter is_Find (fst (GetALL m db coll lastID pageSize T)) =
           [EvFind db coll (fst (GetALL_filter lastID))
              \<lparr>Limit = Some (fst (ParseInt pageSize)),
                 Sort = Some (VD [(''_id'', VInt 1)])\<rparr>]"
    using GetALL_Find_calls [OF ok] by (simp only: GetALL_findOptions_fst)
  moreover have "\<forall>c. Find m db coll (fst (GetALL_filter lastID))
                  \<lparr>Limit = Some (fst (ParseInt pageSize)),
                     Sort = Some (VD [(''_id'', VInt 1)])\<rparr> = Inr c \<longrightarrow>
              snd (GetALL m db coll lastID pageSize T) =
                (case Cursor_All m c (SliceOf T) of
                   (r, None) \<Rightarrow> Return (r, None)
                 | (r, Some e) \<Rightarrow> Return (VNil, Some e))"
    using GetALL_outcome [OF ok, where T = T] by (simp add: GetALL_findOptions_fst)
  moreover have "snd (ParseInt pageSize) \<noteq> None \<longrightarrow>
            Printf ''%d can not convert to int64'' (VInt (fst (ParseInt pageSize)))
              \<in> set (fst (GetALL m db coll lastID pageSize T)) \<and>
            fst (ParseInt pageSize) \<in> {0, 2 ^ 63 - 1, - (2 ^ 63)}"
    using GetALL_printf_pageSize [OF ok] ParseInt_failure_value by blast
  moreover have "snd (ParseInt pageSize) = None \<longrightarrow>
            fst (ParseInt pageSize) < 0 \<and>
            (\<forall>v. Printf ''%d can not convert to int64'' v
                   \<notin> set (fst (GetALL m db coll lastID pageSize T)))"
    using GetALL_no_pageSize_message [OF ok] assms(4) by auto
  ultimately show ?thesis by blast
qed

theorem GetALL_invalid_pageSize_proceeds_witness:
  "filter is_Find (fst (GetALL store_ok ''db'' ''users'' [] ''abc'' (NamedType ''User''))) =
     [EvFind ''db'' ''users'' (VM [])
        \<lparr>Limit = Some 0, Sort = Some (VD [(''_id'', VInt 1)])\<rparr>] \<and>
   snd (GetALL store_ok ''db'' ''users'' [] ''abc'' (NamedType ''User'')) =
     Return (VSlice [VOpaque ''doc1'', VOpaque ''doc2''], None) \<and>
   filter is_Find (fst (GetALL store_ok ''db'' ''users'' [] ''-5'' (NamedType ''User''))) =
     [EvFind ''db'' ''users'' (VM [])
        \<lparr>Limit = Some (- 5), Sort = Some (VD [(''_id'', VInt 1)])\<rparr>] \<and>
   snd (GetALL store_ok ''db'' ''users'' [] ''-5'' (NamedType ''User'')) =
     Return (VSlice [VOpaque ''doc1'', VOpaque ''doc2''], None)"
proof -
  have a: "StartSession store_ok = None" "StartTransaction store_ok = None"
    by (simp_all add: store_defs)
  have b: "\<not> (''db'' = [] \<and> ''users'' = [] \<and> ([]::string) = [] \<and> ''abc'' = [])"
    by simp
  have b': "\<not> (''db'' = [] \<and> ''users'' = [] \<and> ([]::string) = [] \<and> ''-5'' = [])"
    by simp
  have c: "\<not> (snd (ParseInt ''abc'') = None \<and> 0 \<le> fst (ParseInt ''abc''))"
    by (simp add: ParseInt_abc)
  have c': "\<not> (snd (ParseInt ''-5'') = None \<and> 0 \<le> fst (ParseInt ''-5''))"
    by (simp add: ParseInt_minus_5)
  have d: "Find store_ok ''db'' ''users'' (fst (GetALL_filter []))
      \<lparr>Limit = Some (fst (ParseInt ''abc'')), Sort = Some (VD [(''_id'', VInt 1)])\<rparr> = Inr 7"
    "Find store_ok ''db'' ''users'' (fst (GetALL_filter []))
      \<lparr>Limit = Some (fst (ParseInt ''-5'')), Sort = Some (VD [(''_id'', VInt 1)])\<rparr> = Inr 7"
    "Cursor_All store_ok 7 (SliceOf (NamedType ''User'')) =
      (VSlice [VOpaque ''doc1'', VOpaque ''doc2''], None)"
    by (simp_all add: store_defs)
  note w = GetALL_invalid_pageSize_proceeds [OF a b c, where T = "NamedType ''User''"]
  note w' = GetALL_invalid_pageSize_proceeds [OF a b' c', where T = "NamedType ''User''"]
  have "filter is_Find (fst (GetALL store_ok ''db'' ''users'' [] ''abc'' (NamedType ''User''))) =
     [EvFind ''db'' ''users'' (fst (GetALL_filter []))
        \<lparr>Limit = Some (fst (ParseInt ''abc'')), Sort = Some (VD [(''_id'', VInt 1)])\<rparr>]"
    using w by blast
  moreover have "snd (GetALL store_ok ''db'' ''users'' [] ''abc'' (NamedType ''User'')) =
     (case Cursor_All store_ok 7 (SliceOf (NamedType ''User'')) of
        (r, None) \<Rightarrow> Return (r, None)
      | (r, Some e) \<Rightarrow> Return (VNil, Some e))"
    using w d(1) by blast
  moreover have "filter is_Find
       (fst (GetALL store_ok ''db'' ''users'' [] ''-5'' (NamedType ''User''))) =
     [EvFind ''db'' ''users'' (fst (GetALL_filter []))
        \<lparr>Limit = Some (fst (ParseInt ''-5'')), Sort = Some (VD [(''_id'', VInt 1)])\<rparr>]"
    using w' by blast
  moreover have "snd (GetALL store_ok ''db'' ''users'' [] ''-5'' (NamedType ''User'')) =
     (case Cursor_All store_ok 7 (SliceOf (NamedType ''User'')) of
        (r, None) \<Rightarrow> Return (r, None)
      | (r, Some e) \<Rightarrow> Return (VNil, Some e))"
    using w' d(2) by blast
  ultimately show ?thesis
    by (simp add: d(3) ParseInt_abc ParseInt_minus_5 GetALL_filter_fst)
qed

text \<open>
  The claim as written (a pageSize that is no valid non-negative integer is rejected with
  an error) does not hold: with \<^verbatim>\<open>abc\<close> the query runs with limit 0, with \<^verbatim>\<open>-5\<close> it
  runs with limit -5, and both calls succeed.
\<close>

theorem GetALL_malformed_pageSize_counterexample:
  "snd (ParseInt ''abc'') \<noteq> None \<and>
   GetALL store_ok ''db'' ''users'' [] ''abc'' (NamedType ''User'') =
     ([SessionStarted, TransactionStarted,
       Printf ''%d can not convert to int64'' (VInt 0),
       EvFind ''db'' ''users'' (VM [])
         \<lparr>Limit = Some 0, Sort = Some (VD [(''_id'', VInt 1)])\<rparr>,
       EvCursorAll 7 (SliceOf (NamedType ''User'')), EvCursorClose 7, EndSession],
      Return (VSlice [VOpaque ''doc1'', VOpaque ''doc2''], None)) \<and>
   ParseInt ''-5'' = (- 5, None) \<and>
   GetALL store_ok ''db'' ''users'' [] ''-5'' (NamedType ''User'') =
     ([SessionStarted, TransactionStarted,
       EvFind ''db'' ''users'' (VM [])
         \<lparr>Limit = Some (- 5), Sort = Some (VD [(''_id'', VInt 1)])\<rparr>,
       EvCursorAll 7 (SliceOf (NamedType ''User'')), EvCursorClose 7, EndSession],
      Return (VSlice [VOpaque ''doc1'', VOpaque ''doc2''], None))"
  by (simp add: GetALL_def GetALL_closure_def GetALL_filter_def GetALL_findOptions_def
      ParseInt_abc ParseInt_minus_5 createSession_def store_defs run_simps)

subsection \<open>C7: all four strings empty\<close>

text \<open>
  C7, as the code has it. For every call to GetALL in which databaseName, collectionName,
  lastID and pageSize are all empty, once the session and the transaction have started
  the operation returns the validation error without any query; the session was opened
  before the check and is released after it.
\<close>

theorem GetALL_all_empty_rejected_after_session:
  assumes "StartSession m = None" "StartTransaction m = None"
  shows "GetALL m [] [] [] [] T =
     ([SessionStarted, TransactionStarted, EndSession],
      Return (VNil,
        Some (ErrorsNew ''databaseName, collectionName, lastID and pageSize must not empty'')))"
  by (simp add: GetALL_def createSession_ok [OF assms] run_simps)

theorem GetALL_all_empty_rejected_after_session_witness:
  "GetALL store_ok [] [] [] [] (NamedType ''User'') =
     ([SessionStarted, TransactionStarted, EndSession],
      Return (VNil,
        Some (ErrorsNew ''databaseName, collectionName, lastID and pageSize must not empty'')))"
proof -
  have a: "StartSession store_ok = None" "StartTransaction store_ok = None"
    by (simp_all add: store_defs)
  show ?thesis
    by (rule GetALL_all_empty_rejected_after_session [OF a])
qed

text \<open>
  The claim as written (the validation error comes before any store access, no session is
  opened) does not hold: the session is opened first, and on a store that cannot allocate
  one the call panics instead of returning the validation error.
\<close>

theorem GetALL_all_empty_counterexample:
  "SessionStarted \<in> set (fst (GetALL store_ok [] [] [] [] (NamedType ''User''))) \<and>
   TransactionStarted \<in> set (fst (GetALL store_ok [] [] [] [] (NamedType ''User''))) \<and>
   snd (GetALL store_no_session [] [] [] [] (NamedType ''User'')) =
     Panic (PanicError (StoreError ''no session''))"
  by (simp add: GetALL_def createSession_def store_defs run_simps)

subsection \<open>C8: an ID of the wrong type in Update and Delete\<close>

text \<open>
  C8, as the code has it. For every call to Update or Delete whose ID argument is not an
  ObjectID, the operation makes no call that changes the store. Once its session and
  transaction have started it fails with the type-mismatch error built by
  \<^verbatim>\<open>errors.New\<close>, logged and returned with a nil result, and the session is released.
  The type assertion comes after \<^verbatim>\<open>createSession\<close>: when the session or the
  transaction cannot be started the call panics with the store's error and the type of
  the ID is never looked at.
\<close>

theorem Update_Delete_reject_wrong_ID_type:
  assumes "\<not> is_ObjectID ID"
  shows "filter is_mutation (fst (Update m db coll ID dataModel)) = [] \<and>
         filter is_mutation (fst (Delete m db coll ID)) = [] \<and>
         (StartSession m = None \<and> StartTransaction m = None \<longrightarrow>
            Update m db coll ID dataModel =
              ([SessionStarted, TransactionStarted,
                Println ''Error when try to use with session at Update method: '' cant_convert,
                EndSession],
               Return (VNil, Some cant_convert)) \<and>
            Delete m db coll ID =
              ([SessionStarted, TransactionStarted,
                Println ''Error when try to use with session at Delete method: '' cant_convert,
                EndSession],
               Return (VNil, Some cant_convert))) \<and>
         (\<forall>e. StartSession m = Some e \<or> (StartSession m = None \<and> StartTransaction m = Some e) \<longrightarrow>
            snd (Update m db coll ID dataModel) = Panic (PanicError e) \<and>
            snd (Delete m db coll ID) = Panic (PanicError e))"
proof -
  have u: "Update_closure m db coll ID dataModel () = ([], Return (VNil, Some cant_convert))"
    using assms by (cases ID) (simp_all add: Update_closure_def)
  have d: "Delete_closure m db coll ID () = ([], Return (VNil, Some cant_convert))"
    using assms by (cases ID) (simp_all add: Delete_closure_def)
  have "filter is_mutation (fst (Update m db coll ID dataModel)) = []"
    by (simp add: Update_def createSession_def run_simps u split: option.splits)
  moreover have "filter is_mutation (fst (Delete m db coll ID)) = []"
    by (simp add: Delete_def createSession_def run_simps d split: option.splits)
  moreover have "StartSession m = None \<and> StartTransaction m = None \<longrightarrow>
            Update m db coll ID dataModel =
              ([SessionStarted, TransactionStarted,
                Println ''Error when try to use with session at Update method: '' cant_convert,
                EndSession],
               Return (VNil, Some cant_convert)) \<and>
            Delete m db coll ID =
              ([SessionStarted, TransactionStarted,
                Println ''Error when try to use with session at Delete method: '' cant_convert,
                EndSession],
               Return (VNil, Some cant_convert))"
    by (simp add: Update_def Delete_def createSession_def run_simps u d)
  moreover have "\<forall>e. StartSession m = Some e \<or>
              (StartSession m = None \<and> StartTransaction m = Some e) \<longrightarrow>
            snd (Update m db coll ID dataModel) = Panic (PanicError e) \<and>
            snd (Delete m db coll ID) = Panic (PanicError e)"
    unfolding Update_def Delete_def using op_no_session by blast
  ultimately show ?thesis by blast
qed

theorem Update_Delete_reject_wrong_ID_type_witness:
  "snd (Update store_ok ''db'' ''users'' (VString ''5f1a2b3c4d5e6f7a8b9c0d1e'')
          (VOpaque ''patch'')) = Return (VNil, Some cant_convert) \<and>
   filter is_mutation
     (fst (Update store_ok ''db'' ''users'' (VString ''5f1a2b3c4d5e6f7a8b9c0d1e'')
          (VOpaque ''patch''))) = [] \<and>
   snd (Delete store_ok ''db'' ''users'' (VString ''5f1a2b3c4d5e6f7a8b9c0d1e'')) =
     Return (VNil, Some cant_convert) \<and>
   filter is_mutation
     (fst (Delete store_ok ''db'' ''users'' (VString ''5f1a2b3c4d5e6f7a8b9c0d1e''))) = [] \<and>
   snd (Delete store_no_transaction ''db'' ''users'' (VNil)) =
     Panic (PanicError (StoreError ''no transaction''))"
proof -
  have a: "StartSession store_ok = None \<and> StartTransaction store_ok = None"
    by (simp add: store_defs)
  have b: "\<not> is_ObjectID (VString ''5f1a2b3c4d5e6f7a8b9c0d1e'')" "\<not> is_ObjectID VNil"
    by simp_all
  have c: "StartSession store_no_transaction = Some (StoreError ''no transaction'') \<or>
      (StartSession store_no_transaction = None \<and>
       StartTransaction store_no_transaction = Some (StoreError ''no transaction''))"
    by (simp add: store_defs)
  note w = Update_Delete_reject_wrong_ID_type [OF b(1), where m = store_ok and db = "''db''"
        and coll = "''users''" and dataModel = "VOpaque ''patch''"]
  note w' = Update_Delete_reject_wrong_ID_type [OF b(2), where m = store_no_transaction
        and db = "''db''" and coll = "''users''" and dataModel = "VOpaque ''patch''"]
  have "snd (Delete store_no_transaction ''db'' ''users'' VNil) =
     Panic (PanicError (StoreError ''no transaction''))"
    using w' c by blast
  then show ?thesis
    using w a by simp
qed

text \<open>
  The claim as written (every such call fails with the type-mismatch error) does not
  hold: on a store that cannot allocate a session, or cannot start the transaction, the
  call panics with the store's error instead.
\<close>

theorem Update_Delete_wrong_ID_type_counterexample:
  "\<not> is_ObjectID (VString ''5f1a2b3c4d5e6f7a8b9c0d1e'') \<and>
   Update store_no_session ''db'' ''users'' (VString ''5f1a2b3c4d5e6f7a8b9c0d1e'')
       (VOpaque ''patch'') =
     ([Println ''Error when try to start session: '' (StoreError ''no session'')],
      Panic (PanicError (StoreError ''no session''))) \<and>
   Delete store_no_transaction ''db'' ''users'' (VString ''5f1a2b3c4d5e6f7a8b9c0d1e'') =
     ([SessionStarted,
       Println ''Error when try to start transaction: '' (StoreError ''no transaction'')],
      Panic (PanicError (StoreError ''no transaction'')))"
  by (simp add: Update_def Delete_def createSession_def store_defs bind_run_Panic)

subsection \<open>C9: the pipeline of MatchAndLookup\<close>

text \<open>
  C9. For every call to MatchAndLookup that reaches the store (its session and
  transaction started), exactly one \<^verbatim>\<open>Aggregate\<close> is issued, on the match collection,
  and its pipeline has two stages: a \<^verbatim>\<open>$match\<close> stage with the predicate
  \<^verbatim>\<open>{fieldForMatch: valueForMatch}\<close>, the value passed through identifier decoding
  when the field is \<^verbatim>\<open>_id\<close>, then a \<^verbatim>\<open>$lookup\<close> stage from the lookup collection
  with localField fieldForLookup, the given foreignField, and the lookup collection's
  name as the output field.
\<close>

theorem MatchAndLookup_pipeline_shape:
  assumes "StartSession m = None" "StartTransaction m = None"
  shows "filter is_Aggregate
           (fst (MatchAndLookup m databaseName collectionForMatch fieldForMatch valueForMatch
              collectionForLookup fieldForLookup foreignField T)) =
         [EvAggregate databaseName collectionForMatch
            (VSlice
              [VM [(''$match'',
                    VM [(fieldForMatch,
                         if fieldForMatch = ''_id''
                         then VObjectID (fst (ObjectIDFromHex valueForMatch))
                         else VString valueForMatch)])],
               VM [(''$lookup'',
                    VM [(''from'', VString collectionForLookup),
                        (''localField'', VString fieldForLookup),
                        (''foreignField'', VString foreignField),
                        (''as'', VString collectionForLookup)])]])]"
  using MatchAndLookup_Aggregate_calls [OF assms]
  by (simp only: MatchAndLookup_matchCondition_fst MatchAndLookup_pipeline_def)

theorem MatchAndLookup_pipeline_shape_witness:
  "filter is_Aggregate
     (fst (MatchAndLookup store_ok ''db'' ''orders'' ''_id'' ''5f1a2b3c4d5e6f7a8b9c0d1e''
        ''users'' ''userId'' ''_id'' (NamedType ''Order''))) =
   [EvAggregate ''db'' ''orders''
      (VSlice
        [VM [(''$match'',
              VM [(''_id'',
                   VObjectID [95, 26, 43, 60, 77, 94, 111, 122, 139, 156, 13, 30])])],
         VM [(''$lookup'',
              VM [(''from'', VString ''users''),
                  (''localField'', VString ''userId''),
                  (''foreignField'', VString ''_id''),
                  (''as'', VString ''users'')])]])] \<and>
   filter is_Aggregate
     (fst (MatchAndLookup store_ok ''db'' ''orders'' ''status'' ''open''
        ''users'' ''userId'' ''_id'' (NamedType ''Order''))) =
   [EvAggregate ''db'' ''orders''
      (VSlice
        [VM [(''$match'', VM [(''status'', VString ''open'')])],
         VM [(''$lookup'',
              VM [(''from'', VString ''users''),
                  (''localField'', VString ''userId''),
                  (''foreignField'', VString ''_id''),
                  (''as'', VString ''users'')])]])]"
proof -
  have a: "StartSession store_ok = None" "StartTransaction store_ok = None"
    by (simp_all add: store_defs)
  show ?thesis
    using MatchAndLookup_pipeline_shape [OF a, where databaseName = "''db''"
        and collectionForMatch = "''orders''" and fieldForMatch = "''_id''"
        and valueForMatch = "''5f1a2b3c4d5e6f7a8b9c0d1e''" and collectionForLookup = "''users''"
        and fieldForLookup = "''userId''" and foreignField = "''_id''"
        and T = "NamedType ''Order''"]
      MatchAndLookup_pipeline_shape [OF a, where databaseName = "''db''"
        and collectionForMatch = "''orders''" and fieldForMatch = "''status''"
        and valueForMatch = "''open''" and collectionForLookup = "''users''"
        and fieldForLookup = "''userId''" and foreignField = "''_id''"
        and T = "NamedType ''Order''"]
    by (simp add: ObjectIDFromHex_sample)
qed

subsection \<open>C10: a failed Find or Aggregate\<close>

text \<open>
  C10. When \<^verbatim>\<open>Find\<close> or \<^verbatim>\<open>Aggregate\<close> returns an error, GetALL and MatchAndLookup
  must return that error, and the deferred cursor cleanup must not touch a nil cursor.
  Both closures register \<^verbatim>\<open>defer cur.Close(ctx)\<close> before they test the error, so on
  a failed query the closure sets its error result and then the deferred call runs on
  the nil cursor: the operation panics with a nil pointer dereference and the store's
  error never reaches the caller.
\<close>

theorem failed_query_panics_on_nil_cursor:
  "Find store_query_fails ''db'' ''users'' (VM [])
      \<lparr>Limit = Some 2, Sort = Some (VD [(''_id'', VInt 1)])\<rparr> =
     Inl (StoreError ''find failed'') \<and>
   GetALL store_query_fails ''db'' ''users'' [] ''2'' (NamedType ''User'') =
     ([SessionStarted, TransactionStarted,
       EvFind ''db'' ''users'' (VM [])
         \<lparr>Limit = Some 2, Sort = Some (VD [(''_id'', VInt 1)])\<rparr>,
       EndSession],
      Panic NilPointerDereference) \<and>
   MatchAndLookup store_query_fails ''db'' ''orders'' ''status'' ''open'' ''users'' ''userId''
       ''_id'' (NamedType ''Order'') =
     ([SessionStarted, TransactionStarted,
       EvAggregate ''db'' ''orders''
         (VSlice
           [VM [(''$match'', VM [(''status'', VString ''open'')])],
            VM [(''$lookup'',
                 VM [(''from'', VString ''users''),
                     (''localField'', VString ''userId''),
                     (''foreignField'', VString ''_id''),
                     (''as'', VString ''users'')])]]),
       EndSession],
      Panic NilPointerDereference)"
  by (simp add: GetALL_def GetALL_closure_def GetALL_filter_def GetALL_findOptions_def
      MatchAndLookup_def MatchAndLookup_closure_def MatchAndLookup_matchCondition_def
      MatchAndLookup_pipeline_def ParseInt_2 createSession_def store_defs run_simps)

end
